theory Spec2Isabelle
  imports Main
begin

section \<open>JavaScript values\<close>

text \<open>
  The client is written in JavaScript, so the registry payload, the lookup arguments and
  the response bodies are dynamically typed. \<open>jsval\<close> is the value space of
  \<^verbatim>\<open>JSON.parse\<close> together with \<^verbatim>\<open>undefined\<close>, which is what reading an
  absent property yields. Numbers are the integral ones, of a magnitude that JavaScript
  renders in plain decimal digits. An object is the list of its own properties; where a
  name is listed twice the first entry is the property.
\<close>

datatype jsval =
    JUndefined
  | JNull
  | JBool bool
  | JNum int
  | JStr string
  | JArr "jsval list"
  | JObj "(string \<times> jsval) list"

text \<open>
  Exceptions are values. \<open>TransportError\<close> is the error object that the HTTP library
  hands to a response handler, \<open>Error\<close> is \<^verbatim>\<open>new Error(message)\<close>.
\<close>

datatype error =
    TypeError
  | RangeError string
  | SyntaxError
  | Error string
  | TransportError string

text \<open>The truth value JavaScript gives a value in \<^verbatim>\<open>if (v)\<close> and \<^verbatim>\<open>!v\<close>.\<close>

fun truthy :: "jsval \<Rightarrow> bool" where
  "truthy JUndefined = False"
| "truthy JNull = False"
| "truthy (JBool b) = b"
| "truthy (JNum n) = (n \<noteq> 0)"
| "truthy (JStr s) = (s \<noteq> [])"
| "truthy (JArr xs) = True"
| "truthy (JObj kvs) = True"

definition own_property :: "(string \<times> jsval) list \<Rightarrow> string \<Rightarrow> jsval" where
  "own_property kvs k = (case map_of kvs k of None \<Rightarrow> JUndefined | Some v \<Rightarrow> v)"

text \<open>
  \<^verbatim>\<open>v.k\<close> for the property names the client reads from payload values
  (\<^verbatim>\<open>applications\<close>, \<^verbatim>\<open>application\<close>, \<^verbatim>\<open>instance\<close>, \<^verbatim>\<open>name\<close>,
  \<^verbatim>\<open>vipAddress\<close>). No built-in prototype defines any of them, so only an object's own
  property can answer; reading a property of \<^verbatim>\<open>undefined\<close> or \<^verbatim>\<open>null\<close> throws.
\<close>

fun js_member :: "jsval \<Rightarrow> string \<Rightarrow> error + jsval" where
  "js_member JUndefined k = Inl TypeError"
| "js_member JNull k = Inl TypeError"
| "js_member (JObj kvs) k = Inr (own_property kvs k)"
| "js_member v k = Inr JUndefined"

text \<open>\<^verbatim>\<open>v.length\<close>: strings and arrays have one of their own.\<close>

fun js_length :: "jsval \<Rightarrow> error + jsval" where
  "js_length JUndefined = Inl TypeError"
| "js_length JNull = Inl TypeError"
| "js_length (JStr s) = Inr (JNum (int (length s)))"
| "js_length (JArr xs) = Inr (JNum (int (length xs)))"
| "js_length (JObj kvs) = Inr (own_property kvs ''length'')"
| "js_length v = Inr JUndefined"

text \<open>\<^verbatim>\<open>v[0]\<close>: out of range reads give \<^verbatim>\<open>undefined\<close>, they do not throw.\<close>

fun js_first :: "jsval \<Rightarrow> error + jsval" where
  "js_first JUndefined = Inl TypeError"
| "js_first JNull = Inl TypeError"
| "js_first (JStr s) = Inr (case s of [] \<Rightarrow> JUndefined | c # cs \<Rightarrow> JStr [c])"
| "js_first (JArr xs) = Inr (case xs of [] \<Rightarrow> JUndefined | x # ys \<Rightarrow> x)"
| "js_first (JObj kvs) = Inr (own_property kvs ''0'')"
| "js_first v = Inr JUndefined"

subsection \<open>Conversion to strings\<close>

definition digit_char :: "nat \<Rightarrow> char" where
  "digit_char d = ''0123456789'' ! d"

function string_of_nat :: "nat \<Rightarrow> string" where
  "string_of_nat n =
     (if n < 10 then [digit_char n] else string_of_nat (n div 10) @ [digit_char (n mod 10)])"
  by pat_completeness auto
termination
  by (relation "measure id") auto

declare string_of_nat.simps [simp del]

definition string_of_int :: "int \<Rightarrow> string" where
  "string_of_int i = (if i < 0 then CHR ''-'' # string_of_nat (nat (- i)) else string_of_nat (nat i))"

text \<open>
  \<^verbatim>\<open>ToString\<close>, which a template literal applies to each interpolated value and a
  property access applies to its key. An array joins its elements with commas, rendering
  \<^verbatim>\<open>null\<close> and \<^verbatim>\<open>undefined\<close> elements as the empty string. A plain object renders
  as \<^verbatim>\<open>[object Object]\<close> through the inherited \<^verbatim>\<open>toString\<close>; when the object has an
  own property of that name, which in a payload is never a function, neither it nor
  \<^verbatim>\<open>valueOf\<close> yields a primitive and the conversion throws.
\<close>

fun ToString :: "jsval \<Rightarrow> error + string"
  and join_elements :: "jsval list \<Rightarrow> error + string" where
  "ToString JUndefined = Inr ''undefined''"
| "ToString JNull = Inr ''null''"
| "ToString (JBool b) = Inr (if b then ''true'' else ''false'')"
| "ToString (JNum n) = Inr (string_of_int n)"
| "ToString (JStr s) = Inr s"
| "ToString (JArr xs) = join_elements xs"
| "ToString (JObj kvs) =
     (if map_of kvs ''toString'' = None then Inr ''[object Object]'' else Inl TypeError)"
| "join_elements [] = Inr []"
| "join_elements (x # xs) =
     (case (if x = JUndefined \<or> x = JNull then Inr [] else ToString x) of
        Inl e \<Rightarrow> Inl e
      | Inr s \<Rightarrow>
          (if xs = [] then Inr s
           else (case join_elements xs of Inl e \<Rightarrow> Inl e | Inr t \<Rightarrow> Inr (s @ '','' @ t))))"

subsection \<open>Letter case\<close>

text \<open>
  \<^verbatim>\<open>toUpperCase\<close> and \<^verbatim>\<open>toLowerCase\<close> on strings of bytes: the ASCII letters change
  case, every other character stays.
\<close>

definition lower_letters :: string where
  "lower_letters = ''abcdefghijklmnopqrstuvwxyz''"

definition upper_letters :: string where
  "upper_letters = ''ABCDEFGHIJKLMNOPQRSTUVWXYZ''"

definition upper_char :: "char \<Rightarrow> char" where
  "upper_char c = (case map_of (zip lower_letters upper_letters) c of None \<Rightarrow> c | Some u \<Rightarrow> u)"

definition lower_char :: "char \<Rightarrow> char" where
  "lower_char c = (case map_of (zip upper_letters lower_letters) c of None \<Rightarrow> c | Some l \<Rightarrow> l)"

definition toUpperCase :: "string \<Rightarrow> string" where
  "toUpperCase s = map upper_char s"

definition toLowerCase :: "string \<Rightarrow> string" where
  "toLowerCase s = map lower_char s"

text \<open>
  \<^verbatim>\<open>v.toUpperCase()\<close>: only a string has the method. On anything else the call throws,
  either because the receiver is \<^verbatim>\<open>undefined\<close> or \<^verbatim>\<open>null\<close>, or because the property
  read is not a function.
\<close>

fun js_toUpperCase :: "jsval \<Rightarrow> error + string" where
  "js_toUpperCase (JStr s) = Inr (toUpperCase s)"
| "js_toUpperCase v = Inl TypeError"

section \<open>The registry cache\<close>

subsection \<open>Index objects\<close>

text \<open>
  \<^verbatim>\<open>this.cache = { app: {}, vip: {} }\<close>: each index is a plain object used as a
  dictionary. A plain object answers a read from its own properties first and from its
  prototype otherwise, so a key that was never stored can still read as a member of
  \<^verbatim>\<open>Object.prototype\<close>; and a write to the key \<^verbatim>\<open>__proto__\<close> reaches the
  inherited setter, which replaces the prototype by the written object instead of storing
  a property. \<open>proto\<close> is \<open>None\<close> while the prototype is \<^verbatim>\<open>Object.prototype\<close>.
\<close>

record index_obj =
  own :: "string \<rightharpoonup> jsval"
  proto :: "jsval option"

definition empty_index :: index_obj where
  "empty_index = \<lparr>own = Map.empty, proto = None\<rparr>"

text \<open>What a read returns: a payload value, or a member of a built-in prototype.\<close>

datatype looked = Value jsval | Builtin string

definition Object_prototype_names :: "string list" where
  "Object_prototype_names =
     [''constructor'', ''hasOwnProperty'', ''isPrototypeOf'', ''propertyIsEnumerable'',
      ''toLocaleString'', ''toString'', ''valueOf'', ''__defineGetter__'',
      ''__defineSetter__'', ''__lookupGetter__'', ''__lookupSetter__'', ''__proto__'']"

text \<open>The members of \<^verbatim>\<open>Array.prototype\<close> in ECMAScript 2015, the language of the source.\<close>

definition Array_prototype_names :: "string list" where
  "Array_prototype_names =
     [''concat'', ''constructor'', ''copyWithin'', ''entries'', ''every'', ''fill'',
      ''filter'', ''find'', ''findIndex'', ''forEach'', ''indexOf'', ''join'', ''keys'',
      ''lastIndexOf'', ''map'', ''pop'', ''push'', ''reduce'', ''reduceRight'',
      ''reverse'', ''shift'', ''slice'', ''some'', ''sort'', ''splice'',
      ''toLocaleString'', ''toString'', ''unshift'', ''values'']"

definition is_object :: "jsval \<Rightarrow> bool" where
  "is_object v = (case v of JArr xs \<Rightarrow> True | JObj kvs \<Rightarrow> True | _ \<Rightarrow> False)"

text \<open>The own properties of a payload value that serves as a prototype.\<close>

definition array_own :: "jsval list \<Rightarrow> string \<Rightarrow> jsval option" where
  "array_own xs k =
     (if k = ''length'' then Some (JNum (int (length xs)))
      else map_of (zip (map string_of_nat [0 ..< length xs]) xs) k)"

definition value_own :: "jsval \<Rightarrow> string \<Rightarrow> jsval option" where
  "value_own p k = (case p of JArr xs \<Rightarrow> array_own xs k | JObj kvs \<Rightarrow> map_of kvs k | _ \<Rightarrow> None)"

definition builtin_names :: "jsval option \<Rightarrow> string list" where
  "builtin_names p =
     (case p of Some (JArr xs) \<Rightarrow> Array_prototype_names @ Object_prototype_names
      | _ \<Rightarrow> Object_prototype_names)"

text \<open>
  The part of a read that the prototype chain answers: the replaced prototype's own
  properties, then the \<^verbatim>\<open>__proto__\<close> getter (which returns the replaced prototype),
  then the built-in members.
\<close>

definition inherited :: "jsval option \<Rightarrow> string \<Rightarrow> looked" where
  "inherited p k =
     (case (case p of None \<Rightarrow> None | Some v \<Rightarrow> value_own v k) of
        Some w \<Rightarrow> Value w
      | None \<Rightarrow>
          (case p of
             Some v \<Rightarrow>
               (if k = ''__proto__'' then Value v
                else if k \<in> set (builtin_names p) then Builtin k else Value JUndefined)
           | None \<Rightarrow> (if k \<in> set Object_prototype_names then Builtin k else Value JUndefined)))"

text \<open>\<^verbatim>\<open>idx[k]\<close>\<close>

definition index_get :: "index_obj \<Rightarrow> string \<Rightarrow> looked" where
  "index_get idx k = (case own idx k of Some v \<Rightarrow> Value v | None \<Rightarrow> inherited (proto idx) k)"

text \<open>
  \<^verbatim>\<open>idx[k] = v\<close>. Every key but \<^verbatim>\<open>__proto__\<close> becomes (or stays) an own property.
  The key \<^verbatim>\<open>__proto__\<close> reaches the setter unless an own property of that name shadows
  it, on the index or on a replaced prototype; the setter takes objects and ignores
  primitives.
\<close>

definition index_set :: "index_obj \<Rightarrow> string \<Rightarrow> jsval \<Rightarrow> index_obj" where
  "index_set idx k v =
     (if k = ''__proto__'' \<and> own idx k = None
          \<and> (case proto idx of None \<Rightarrow> True | Some p \<Rightarrow> value_own p k = None)
      then (if is_object v then idx\<lparr>proto := Some v\<rparr> else idx)
      else idx\<lparr>own := (own idx)(k \<mapsto> v)\<rparr>)"

record cache =
  app :: index_obj
  vip :: index_obj

definition empty_cache :: cache where
  "empty_cache = \<lparr>app = empty_index, vip = empty_index\<rparr>"

subsection \<open>Normalising one application entry\<close>

text \<open>\<^verbatim>\<open>app.name.toUpperCase()\<close>\<close>

definition upper_name :: "jsval \<Rightarrow> error + string" where
  "upper_name a = (case js_member a ''name'' of Inl e \<Rightarrow> Inl e | Inr n \<Rightarrow> js_toUpperCase n)"

text \<open>The key of \<^verbatim>\<open>cache.vip[v.vipAddress]\<close>\<close>

definition vipAddress_key :: "jsval \<Rightarrow> error + string" where
  "vipAddress_key v = (case js_member v ''vipAddress'' of Inl e \<Rightarrow> Inl e | Inr w \<Rightarrow> ToString w)"

text \<open>
  \<^verbatim>\<open>transformApp(app, cache)\<close> mutates the cache it is given; the model returns the
  cache as the call leaves it, together with the exception if one was thrown. The list
  branch is chosen by the truth of \<^verbatim>\<open>app.instance.length\<close>, and the two branches write
  the two indices in opposite orders.
\<close>

definition transformApp :: "jsval \<Rightarrow> cache \<Rightarrow> (error + unit) \<times> cache" where
  "transformApp a c =
     (case js_member a ''instance'' of
        Inl e \<Rightarrow> (Inl e, c)
      | Inr inst \<Rightarrow>
     (case js_length inst of
        Inl e \<Rightarrow> (Inl e, c)
      | Inr len \<Rightarrow>
          if truthy len then
            (case upper_name a of
               Inl e \<Rightarrow> (Inl e, c)
             | Inr n \<Rightarrow>
                 let c1 = c\<lparr>app := index_set (app c) n inst\<rparr> in
                 (case js_first inst of
                    Inl e \<Rightarrow> (Inl e, c1)
                  | Inr x \<Rightarrow>
                 (case vipAddress_key x of
                    Inl e \<Rightarrow> (Inl e, c1)
                  | Inr k \<Rightarrow> (Inr (), c1\<lparr>vip := index_set (vip c1) k inst\<rparr>))))
          else
            let instances = JArr [inst] in
            (case vipAddress_key inst of
               Inl e \<Rightarrow> (Inl e, c)
             | Inr k \<Rightarrow>
                 let c1 = c\<lparr>vip := index_set (vip c) k instances\<rparr> in
                 (case upper_name a of
                    Inl e \<Rightarrow> (Inl e, c1)
                  | Inr n \<Rightarrow> (Inr (), c1\<lparr>app := index_set (app c1) n instances\<rparr>)))))"

text \<open>\<^verbatim>\<open>apps.forEach(app => this.transformApp(app, newCache))\<close>: an exception ends the loop.\<close>

fun transformApps :: "jsval list \<Rightarrow> cache \<Rightarrow> (error + unit) \<times> cache" where
  "transformApps [] c = (Inr (), c)"
| "transformApps (a # as) c =
     (case transformApp a c of
        (Inl e, c') \<Rightarrow> (Inl e, c')
      | (Inr u, c') \<Rightarrow> transformApps as c')"

text \<open>
  The new cache of \<^verbatim>\<open>transformRegistry\<close>: a fresh pair of empty indices, filled from
  the application value alone, which is a list of entries or a single entry.
\<close>

definition build_newCache :: "jsval \<Rightarrow> (error + unit) \<times> cache" where
  "build_newCache application =
     (case application of
        JArr as \<Rightarrow> transformApps as empty_cache
      | _ \<Rightarrow> transformApp application empty_cache)"

section \<open>The client\<close>

subsection \<open>Configuration, effects and state\<close>

text \<open>
  The merged configuration is an input of the client. Optional settings are \<open>None\<close>
  when they are \<^verbatim>\<open>undefined\<close>; an optional string counts as set when it is present and
  not empty, and a template literal renders an absent one as \<^verbatim>\<open>undefined\<close>.
\<close>

record instance_cfg =
  inst_app :: string
  inst_instanceId :: "string option"
  inst_hostName :: "string option"
  inst_status :: "string option"
  dataCenter_name :: "string option"
  metadata_instance_id :: "string option"

record eureka_cfg =
  eureka_host :: string
  eureka_port :: nat
  eureka_servicePath :: string
  eureka_ssl :: bool
  eureka_useDns :: bool
  eureka_ec2Region :: "string option"

record config =
  cfg_instance :: instance_cfg
  cfg_eureka :: eureka_cfg

definition is_set :: "string option \<Rightarrow> bool" where
  "is_set x = (case x of None \<Rightarrow> False | Some t \<Rightarrow> t \<noteq> [])"

definition render :: "string option \<Rightarrow> string" where
  "render x = (case x of None \<Rightarrow> ''undefined'' | Some t \<Rightarrow> t)"

text \<open>
  Everything the client does to the outside is recorded, in order: logger calls, HTTP
  requests, DNS queries and the diagnostic registration timer.
\<close>

datatype level = Debug | Info | Warn | Err

datatype log_arg = Msg string | Thrown error | Records "string list list"

datatype request =
    Post string instance_cfg
  | Put string
  | Get string

datatype effect =
    Log level "log_arg list"
  | Http request
  | Dns string
  | SetTimeout nat
  | ClearTimeout

record client =
  config :: config
  cache :: cache
  effects :: "effect list"

definition emit :: "effect \<Rightarrow> client \<Rightarrow> client" where
  "emit x s = s\<lparr>effects := effects s @ [x]\<rparr>"

text \<open>
  What a response handler receives: an error and no response, or a response with its
  status code and body. The environment answers each request and each DNS query, picks
  the random index \<^verbatim>\<open>Math.floor(Math.random() * n)\<close>, and provides \<^verbatim>\<open>JSON.parse\<close>.
  A request made with \<^verbatim>\<open>json: true\<close> is answered with a body that is already a value.
\<close>

datatype 'b http_result = NoResponse error | Response int 'b

record env =
  http :: "request \<Rightarrow> string http_result"
  http_json :: "request \<Rightarrow> jsval http_result"
  resolveTxt :: "string \<Rightarrow> string + string list list"
  pick :: "nat \<Rightarrow> nat"
  JSON_parse :: "string \<Rightarrow> error + jsval"

text \<open>
  An operation returns the state it leaves and either the exception that escaped from it
  (\<open>Inl\<close>) or what it handed to its callback (\<open>Inr\<close>). For \<^verbatim>\<open>register\<close> and
  \<^verbatim>\<open>fetchRegistry\<close> the callback receives \<^verbatim>\<open>null\<close> (\<open>None\<close>) or an error.
\<close>

subsection \<open>Installing a fetched registry\<close>

text \<open>
  \<^verbatim>\<open>transformRegistry(registry)\<close>. The new cache is a local value until the last
  statement assigns it; an exception from \<^verbatim>\<open>transformApp\<close> leaves that statement
  unexecuted.
\<close>

definition transformRegistry :: "jsval \<Rightarrow> client \<Rightarrow> (error + unit) \<times> client" where
  "transformRegistry registry s =
     (if \<not> truthy registry then
        (Inr (), emit (Log Warn [Msg ''Unable to transform empty registry'']) s)
      else
        (case js_member registry ''applications'' of
           Inl e \<Rightarrow> (Inl e, s)
         | Inr applications \<Rightarrow>
        (case js_member applications ''application'' of
           Inl e \<Rightarrow> (Inl e, s)
         | Inr application \<Rightarrow>
             if \<not> truthy application then (Inr (), s)
             else
               (case build_newCache application of
                  (Inl e, newCache) \<Rightarrow> (Inl e, s)
                | (Inr u, newCache) \<Rightarrow> (Inr (), s\<lparr>cache := newCache\<rparr>)))))"

text \<open>
  The same statements one at a time. A configuration is the client state that a reader
  of \<^verbatim>\<open>this.cache\<close> would see, and where the call stands: still filling the local new
  cache from the remaining entries, finished, or aborted by an exception.
\<close>

datatype phase = Building "jsval list" cache | Finished | Aborted error

fun building_steps :: "client \<Rightarrow> jsval list \<Rightarrow> cache \<Rightarrow> (client \<times> phase) list" where
  "building_steps s [] newCache =
     [(s, Building [] newCache), (s\<lparr>cache := newCache\<rparr>, Finished)]"
| "building_steps s (a # as) newCache =
     (s, Building (a # as) newCache) #
     (case transformApp a newCache of
        (Inl e, c') \<Rightarrow> [(s, Aborted e)]
      | (Inr u, c') \<Rightarrow> building_steps s as c')"

definition transformRegistry_steps :: "jsval \<Rightarrow> client \<Rightarrow> (client \<times> phase) list" where
  "transformRegistry_steps registry s =
     (if \<not> truthy registry then
        [(emit (Log Warn [Msg ''Unable to transform empty registry'']) s, Finished)]
      else
        (case js_member registry ''applications'' of
           Inl e \<Rightarrow> [(s, Aborted e)]
         | Inr applications \<Rightarrow>
        (case js_member applications ''application'' of
           Inl e \<Rightarrow> [(s, Aborted e)]
         | Inr application \<Rightarrow>
             if \<not> truthy application then [(s, Finished)]
             else
               (case application of
                  JArr as \<Rightarrow> building_steps s as empty_cache
                | _ \<Rightarrow> building_steps s [application] empty_cache))))"

subsection \<open>Lookups\<close>

definition looked_truthy :: "looked \<Rightarrow> bool" where
  "looked_truthy r = (case r of Value v \<Rightarrow> truthy v | Builtin k \<Rightarrow> True)"

text \<open>\<^verbatim>\<open>getInstancesByAppId(appId)\<close>\<close>

definition getInstancesByAppId :: "jsval \<Rightarrow> client \<Rightarrow> (error + looked) \<times> client" where
  "getInstancesByAppId appId s =
     (if \<not> truthy appId then (Inl (RangeError ''Unable to query instances with no appId''), s)
      else
        (case js_toUpperCase appId of
           Inl e \<Rightarrow> (Inl e, s)
         | Inr k \<Rightarrow>
             let instances = index_get (app (cache s)) k in
             if \<not> looked_truthy instances then
               (case ToString appId of
                  Inl e \<Rightarrow> (Inl e, s)
                | Inr t \<Rightarrow>
                    (Inr instances,
                     emit (Log Warn [Msg (''Unable to retrieve instances for appId: '' @ t)]) s))
             else (Inr instances, s)))"

text \<open>\<^verbatim>\<open>getInstancesByVipAddress(vipAddress)\<close>\<close>

definition getInstancesByVipAddress :: "jsval \<Rightarrow> client \<Rightarrow> (error + looked) \<times> client" where
  "getInstancesByVipAddress vipAddress s =
     (if \<not> truthy vipAddress then
        (Inl (RangeError ''Unable to query instances with no vipAddress''), s)
      else
        (case ToString vipAddress of
           Inl e \<Rightarrow> (Inl e, s)
         | Inr k \<Rightarrow>
             let instances = index_get (vip (cache s)) k in
             if \<not> looked_truthy instances then
               (Inr instances,
                emit (Log Warn [Msg (''Unable to retrieves instances for vipAddress: '' @ k)]) s)
             else (Inr instances, s)))"

subsection \<open>Resolving the server address\<close>

text \<open>\<^verbatim>\<open>get amazonDataCenter()\<close> and \<^verbatim>\<open>get instanceId()\<close>\<close>

definition amazonDataCenter :: "config \<Rightarrow> bool" where
  "amazonDataCenter cfg =
     (case dataCenter_name (cfg_instance cfg) of
        None \<Rightarrow> False
      | Some n \<Rightarrow> n \<noteq> [] \<and> toLowerCase n = ''amazon'')"

definition instanceId :: "config \<Rightarrow> string option" where
  "instanceId cfg =
     (if is_set (inst_instanceId (cfg_instance cfg)) then inst_instanceId (cfg_instance cfg)
      else if amazonDataCenter cfg then metadata_instance_id (cfg_instance cfg)
      else inst_hostName (cfg_instance cfg))"

definition nth_opt :: "'a list \<Rightarrow> nat \<Rightarrow> 'a option" where
  "nth_opt xs i = (if i < length xs then Some (xs ! i) else None)"

text \<open>
  \<^verbatim>\<open>locateEurekaHostUsingDns(callback)\<close>: two TXT queries, the second for an entry
  picked at random from the first record of the first answer. Each failure is a
  \<^verbatim>\<open>throw\<close>; an empty first answer makes \<^verbatim>\<open>addresses[0].length\<close> throw. The callback
  receives the first string of the flattened second answer, \<^verbatim>\<open>undefined\<close> when there
  is none.
\<close>

definition locateEurekaHostUsingDns :: "env \<Rightarrow> client \<Rightarrow> (error + string option) \<times> client" where
  "locateEurekaHostUsingDns ev s =
     (let ec2Region = eureka_ec2Region (cfg_eureka (config s));
          host = eureka_host (cfg_eureka (config s))
      in
      if \<not> is_set ec2Region then
        (Inl (Error (''EC2 region was undefined. '' @
           ''config.eureka.ec2Region must be set to resolve Eureka using DNS records.'')), s)
      else
        let name1 = ''txt.'' @ render ec2Region @ ''.'' @ host;
            s1 = emit (Dns name1) s
        in
        (case resolveTxt ev name1 of
           Inl err \<Rightarrow>
             (Inl (Error (''Error resolving eureka server list for region ['' @ render ec2Region
                @ ''] using DNS: ['' @ err @ '']'')), s1)
         | Inr addresses \<Rightarrow>
             (case addresses of
                [] \<Rightarrow> (Inl TypeError, s1)
              | first_record # others \<Rightarrow>
                  let random = pick ev (length first_record);
                      name2 = ''txt.'' @ render (nth_opt first_record random);
                      s2 = emit (Dns name2) s1
                  in
                  (case resolveTxt ev name2 of
                     Inl resolveErr \<Rightarrow>
                       (Inl (Error (''Error locating eureka server using DNS: ['' @ resolveErr
                          @ '']'')), s2)
                   | Inr results \<Rightarrow>
                       (Inr (case concat results of [] \<Rightarrow> None | h # t \<Rightarrow> Some h),
                        emit (Log Debug [Msg ''Found Eureka Server @ '', Records results]) s2)))))"

text \<open>\<^verbatim>\<open>lookupCurrentEurekaHost(callback)\<close>\<close>

definition lookupCurrentEurekaHost :: "env \<Rightarrow> client \<Rightarrow> (error + string option) \<times> client" where
  "lookupCurrentEurekaHost ev s =
     (if amazonDataCenter (config s) \<and> eureka_useDns (cfg_eureka (config s))
      then locateEurekaHostUsingDns ev s
      else (Inr (Some (eureka_host (cfg_eureka (config s)))), s))"

text \<open>\<^verbatim>\<open>buildEurekaUrl(callback)\<close>\<close>

definition buildEurekaUrl :: "env \<Rightarrow> client \<Rightarrow> (error + string) \<times> client" where
  "buildEurekaUrl ev s =
     (case lookupCurrentEurekaHost ev s of
        (Inl e, s1) \<Rightarrow> (Inl e, s1)
      | (Inr eurekaHost, s1) \<Rightarrow>
          (Inr ((if eureka_ssl (cfg_eureka (config s1)) then ''https'' else ''http'') @ ''://''
                @ render eurekaHost @ '':'' @ string_of_nat (eureka_port (cfg_eureka (config s1)))
                @ eureka_servicePath (cfg_eureka (config s1))), s1))"

subsection \<open>Registration and heartbeat\<close>

text \<open>The response handler of \<^verbatim>\<open>register\<close>.\<close>

definition register_response ::
  "jsval http_result \<Rightarrow> client \<Rightarrow> (error + error option) \<times> client" where
  "register_response r s =
     (let s1 = emit ClearTimeout s in
      case r of
        Response statusCode body \<Rightarrow>
          if statusCode = 204 then
            (Inr None,
             emit (Log Info [Msg ''registered with eureka: '',
                Msg (inst_app (cfg_instance (config s1)) @ ''/'' @ render (instanceId (config s1)))]) s1)
          else
            (case ToString body of
               Inl e \<Rightarrow> (Inl e, s1)
             | Inr t \<Rightarrow>
                 (Inr (Some (Error (''eureka registration FAILED: status: ''
                    @ string_of_int statusCode @ '' body: '' @ t))), s1))
      | NoResponse e \<Rightarrow> (Inr (Some e), s1))"

text \<open>
  \<^verbatim>\<open>register(callback)\<close>: the status becomes \<^verbatim>\<open>UP\<close>, the diagnostic timer is set, the
  URL is built and the instance document is posted with \<^verbatim>\<open>json: true\<close>. The timer only
  logs a warning if it fires before the response handler clears it; when it fires is a
  matter of real time and is not part of the operation.
\<close>

definition begin_registration :: "client \<Rightarrow> client" where
  "begin_registration s =
     emit (SetTimeout 10000)
       (s\<lparr>config := (config s)\<lparr>cfg_instance :=
             (cfg_instance (config s))\<lparr>inst_status := Some ''UP''\<rparr>\<rparr>\<rparr>)"

definition register :: "env \<Rightarrow> client \<Rightarrow> (error + error option) \<times> client" where
  "register ev s =
     (case buildEurekaUrl ev (begin_registration s) of
        (Inl e, s2) \<Rightarrow> (Inl e, s2)
      | (Inr eurekaUrl, s2) \<Rightarrow>
          let req = Post (eurekaUrl @ inst_app (cfg_instance (config s2))) (cfg_instance (config s2))
          in register_response (http_json ev req) (emit (Http req) s2))"

text \<open>
  The response handler of \<^verbatim>\<open>renew\<close>. On 404 it calls \<^verbatim>\<open>this.register()\<close> with the
  default callback, which ignores what registration reports.
\<close>

definition renew_response :: "env \<Rightarrow> string http_result \<Rightarrow> client \<Rightarrow> (error + unit) \<times> client" where
  "renew_response ev r s =
     (case r of
        Response statusCode body \<Rightarrow>
          if statusCode = 200 then (Inr (), emit (Log Debug [Msg ''eureka heartbeat success'']) s)
          else if statusCode = 404 then
            (case register ev (emit (Log Warn [Msg ''eureka heartbeat FAILED, Re-registering app'']) s) of
               (Inl e, s1) \<Rightarrow> (Inl e, s1)
             | (Inr reported, s1) \<Rightarrow> (Inr (), s1))
          else
            (Inr (), emit (Log Warn [Msg ''eureka heartbeat FAILED, will retry.'',
               Msg (''status: '' @ string_of_int statusCode @ '' body: '' @ body)]) s)
      | NoResponse e \<Rightarrow>
          (Inr (),
           emit (Log Warn [Msg ''eureka heartbeat FAILED, will retry.'',
              Msg (''status: unknown body: undefined'')])
             (emit (Log Err [Msg ''An error in the request occured.'', Thrown e]) s)))"

text \<open>\<^verbatim>\<open>renew()\<close>\<close>

definition renew :: "env \<Rightarrow> client \<Rightarrow> (error + unit) \<times> client" where
  "renew ev s =
     (case buildEurekaUrl ev s of
        (Inl e, s1) \<Rightarrow> (Inl e, s1)
      | (Inr eurekaUrl, s1) \<Rightarrow>
          let req = Put (eurekaUrl @ inst_app (cfg_instance (config s1)) @ ''/''
                         @ render (instanceId (config s1)))
          in renew_response ev (http ev req) (emit (Http req) s1))"

subsection \<open>Fetching the registry\<close>

text \<open>The response handler of \<^verbatim>\<open>fetchRegistry\<close>.\<close>

definition fetchRegistry_response ::
  "env \<Rightarrow> string http_result \<Rightarrow> client \<Rightarrow> (error + error option) \<times> client" where
  "fetchRegistry_response ev r s =
     (case r of
        Response statusCode body \<Rightarrow>
          if statusCode = 200 then
            (let s1 = emit (Log Debug [Msg ''retrieved registry successfully'']) s in
             case JSON_parse ev body of
               Inl e \<Rightarrow> (Inl e, s1)
             | Inr registry \<Rightarrow>
                 (case transformRegistry registry s1 of
                    (Inl e, s2) \<Rightarrow> (Inl e, s2)
                  | (Inr u, s2) \<Rightarrow> (Inr None, s2)))
          else (Inr (Some (Error ''Unable to retrieve registry from Eureka server'')), s)
      | NoResponse e \<Rightarrow> (Inr (Some e), s))"

text \<open>\<^verbatim>\<open>fetchRegistry(callback)\<close>\<close>

definition fetchRegistry :: "env \<Rightarrow> client \<Rightarrow> (error + error option) \<times> client" where
  "fetchRegistry ev s =
     (case buildEurekaUrl ev s of
        (Inl e, s1) \<Rightarrow> (Inl e, s1)
      | (Inr eurekaUrl, s1) \<Rightarrow>
          fetchRegistry_response ev (http ev (Get eurekaUrl)) (emit (Http (Get eurekaUrl)) s1))"

section \<open>Notions of the specification\<close>

text \<open>
  Two casings of the same name, in the words of the specification: strings of equal
  length that agree position by position up to the case of a letter. This relation is
  stated without reference to \<^verbatim>\<open>toUpperCase\<close>.
\<close>

definition same_letter :: "char \<Rightarrow> char \<Rightarrow> bool" where
  "same_letter c d =
     (c = d \<or> (c, d) \<in> set (zip lower_letters upper_letters)
            \<or> (d, c) \<in> set (zip lower_letters upper_letters))"

definition casing_of :: "string \<Rightarrow> string \<Rightarrow> bool" where
  "casing_of a b = list_all2 same_letter a b"

text \<open>
  Observations on the recorded effects. Every call of \<^verbatim>\<open>register\<close> sets the diagnostic
  timer once, before anything else can fail, so the timers set count the calls.
\<close>

definition registrations :: "client \<Rightarrow> nat" where
  "registrations s = count_list (effects s) (SetTimeout 10000)"

definition is_log :: "effect \<Rightarrow> bool" where
  "is_log x = (case x of Log l args \<Rightarrow> True | _ \<Rightarrow> False)"

section \<open>Scenarios\<close>

text \<open>
  A client configured with a static server address, one configured for DNS discovery in
  an Amazon datacenter, and a stub environment that answers every request with a fixed
  response. The stub's parser knows the JSON literal names and rejects every other text;
  the scenarios give it only literal names and texts that are not JSON.
\<close>

definition example_config :: config where
  "example_config =
     \<lparr>cfg_instance =
        \<lparr>inst_app = ''orders'', inst_instanceId = None, inst_hostName = Some ''host-1'',
         inst_status = None, dataCenter_name = Some ''MyOwn'', metadata_instance_id = None\<rparr>,
      cfg_eureka =
        \<lparr>eureka_host = ''eureka.local'', eureka_port = 8761,
         eureka_servicePath = ''/eureka/v2/apps/'', eureka_ssl = False,
         eureka_useDns = False, eureka_ec2Region = None\<rparr>\<rparr>"

definition dns_config :: config where
  "dns_config =
     \<lparr>cfg_instance =
        \<lparr>inst_app = ''orders'', inst_instanceId = None, inst_hostName = Some ''host-1'',
         inst_status = None, dataCenter_name = Some ''Amazon'', metadata_instance_id = Some ''i-1''\<rparr>,
      cfg_eureka =
        \<lparr>eureka_host = ''eureka.local'', eureka_port = 8761,
         eureka_servicePath = ''/eureka/v2/apps/'', eureka_ssl = False,
         eureka_useDns = True, eureka_ec2Region = Some ''us-east-1''\<rparr>\<rparr>"

definition new_client :: "config \<Rightarrow> client" where
  "new_client cfg = \<lparr>config = cfg, cache = empty_cache, effects = []\<rparr>"

definition JSON_parse_literal :: "string \<Rightarrow> error + jsval" where
  "JSON_parse_literal t =
     (if t = ''null'' then Inr JNull
      else if t = ''true'' then Inr (JBool True)
      else if t = ''false'' then Inr (JBool False)
      else Inl SyntaxError)"

definition stub_env ::
  "string http_result \<Rightarrow> jsval http_result \<Rightarrow> (string \<Rightarrow> string + string list list) \<Rightarrow> env" where
  "stub_env answer json_answer dns =
     \<lparr>http = (\<lambda>r. answer), http_json = (\<lambda>r. json_answer), resolveTxt = dns,
      pick = (\<lambda>n. 0), JSON_parse = JSON_parse_literal\<rparr>"

text \<open>
  A registry with two applications, one with a single instance record and one with a list
  of one instance, the cache it yields, and an older cache.
\<close>

definition two_apps_registry :: jsval where
  "two_apps_registry =
     JObj [(''applications'', JObj [(''application'',
       JArr [JObj [(''name'', JStr ''a''), (''instance'', JObj [(''vipAddress'', JStr ''a.vip'')])],
             JObj [(''name'', JStr ''b''), (''instance'', JArr [JObj [(''vipAddress'', JStr ''b.vip'')]])]])])]"

definition two_apps_cache :: cache where
  "two_apps_cache =
     \<lparr>app = \<lparr>own = [''A'' \<mapsto> JArr [JObj [(''vipAddress'', JStr ''a.vip'')]],
                     ''B'' \<mapsto> JArr [JObj [(''vipAddress'', JStr ''b.vip'')]]], proto = None\<rparr>,
      vip = \<lparr>own = [''a.vip'' \<mapsto> JArr [JObj [(''vipAddress'', JStr ''a.vip'')]],
                     ''b.vip'' \<mapsto> JArr [JObj [(''vipAddress'', JStr ''b.vip'')]]], proto = None\<rparr>\<rparr>"

definition old_cache :: cache where
  "old_cache =
     \<lparr>app = \<lparr>own = [''OLD'' \<mapsto> JArr [JObj [(''vipAddress'', JStr ''old.vip'')]]], proto = None\<rparr>,
      vip = \<lparr>own = [''old.vip'' \<mapsto> JArr [JObj [(''vipAddress'', JStr ''old.vip'')]]], proto = None\<rparr>\<rparr>"

definition no_dns :: "string \<Rightarrow> string + string list list" where
  "no_dns name = Inl ''queryTxt ENOTFOUND''"

section \<open>Properties of the case mapping and of the index objects\<close>

lemma length_letters: "length lower_letters = length upper_letters"
  by (simp add: lower_letters_def upper_letters_def)

lemma upper_char_not_lower: "upper_char c \<notin> set lower_letters"
proof (cases "map_of (zip lower_letters upper_letters) c")
  case None
  then have "c \<notin> set lower_letters"
    using map_of_zip_is_None[OF length_letters] by blast
  with None show ?thesis by (simp add: upper_char_def)
next
  case (Some u)
  then have "u \<in> set upper_letters"
    by (meson map_of_SomeD set_zip_rightD)
  then have "u \<notin> set lower_letters"
    by (auto simp: upper_letters_def lower_letters_def)
  with Some show ?thesis by (simp add: upper_char_def)
qed

lemma toUpperCase_no_lower: "c \<in> set (toUpperCase s) \<Longrightarrow> c \<notin> set lower_letters"
  by (auto simp: toUpperCase_def upper_char_not_lower)

lemma toUpperCase_not_inherited: "toUpperCase s \<notin> set Object_prototype_names"
proof
  assume a: "toUpperCase s \<in> set Object_prototype_names"
  have "\<forall>n \<in> set Object_prototype_names. \<exists>c \<in> set n. c \<in> set lower_letters"
    by (simp add: Object_prototype_names_def lower_letters_def)
  with a obtain c where "c \<in> set (toUpperCase s)" "c \<in> set lower_letters" by blast
  then show False using toUpperCase_no_lower by blast
qed

lemma toUpperCase_not_proto: "toUpperCase s \<noteq> ''__proto__''"
  using toUpperCase_not_inherited[of s] by (auto simp: Object_prototype_names_def)

lemma index_set_upper: "index_set idx (toUpperCase n) v = idx\<lparr>own := (own idx)(toUpperCase n \<mapsto> v)\<rparr>"
  by (simp add: index_set_def toUpperCase_not_proto)

lemma index_get_set_upper: "index_get (index_set idx (toUpperCase n) v) (toUpperCase n) = Value v"
  by (simp add: index_set_upper index_get_def)

lemma own_index_set: "dom (own (index_set idx k v)) \<subseteq> insert k (dom (own idx))"
  by (auto simp: index_set_def)

lemma ToString_error:
  shows "ToString v = Inl e \<Longrightarrow> e = TypeError"
    and "join_elements vs = Inl e \<Longrightarrow> e = TypeError"
  by (induction v and vs rule: ToString_join_elements.induct) (auto split: sum.splits if_splits)

lemma js_member_error: "js_member v k = Inl e \<Longrightarrow> e = TypeError"
  by (cases v) auto

lemma js_toUpperCase_error: "js_toUpperCase v = Inl e \<Longrightarrow> e = TypeError"
  by (cases v) auto

lemma upper_name_error: "upper_name a = Inl e \<Longrightarrow> e = TypeError"
  by (auto simp: upper_name_def split: sum.splits dest: js_member_error js_toUpperCase_error)

lemma vipAddress_key_error: "vipAddress_key v = Inl e \<Longrightarrow> e = TypeError"
  by (auto simp: vipAddress_key_def split: sum.splits dest: js_member_error ToString_error(1))

section \<open>Properties of the normalisation\<close>

text \<open>
  C10. An application entry whose instance field is the empty list has
  \<^verbatim>\<open>app.instance.length\<close> equal to 0, which is falsy, so \<^verbatim>\<open>transformApp\<close> takes the
  single-record branch. The value cached under the upper-cased application name is the
  one-element sequence whose element is the empty list, and the virtual-IP key is the
  rendering of the \<^verbatim>\<open>vipAddress\<close> of the empty list, which is \<^verbatim>\<open>undefined\<close>.
\<close>

theorem transformApp_empty_list:
  assumes "js_member a ''instance'' = Inr (JArr [])"
    and "js_member a ''name'' = Inr (JStr n)"
  shows "js_length (JArr []) = Inr (JNum 0) \<and> \<not> truthy (JNum 0)
       \<and> js_member (JArr []) ''vipAddress'' = Inr JUndefined
       \<and> vipAddress_key (JArr []) = Inr ''undefined''
       \<and> transformApp a c =
           (Inr (), c\<lparr>vip := index_set (vip c) ''undefined'' (JArr [JArr []]),
                      app := index_set (app c) (toUpperCase n) (JArr [JArr []])\<rparr>)
       \<and> index_get (app (snd (transformApp a c))) (toUpperCase n) = Value (JArr [JArr []])"
proof -
  have k: "vipAddress_key (JArr []) = Inr ''undefined''"
    by (simp add: vipAddress_key_def)
  have u: "upper_name a = Inr (toUpperCase n)"
    using assms(2) by (simp add: upper_name_def)
  have t: "transformApp a c =
           (Inr (), c\<lparr>vip := index_set (vip c) ''undefined'' (JArr [JArr []]),
                      app := index_set (app c) (toUpperCase n) (JArr [JArr []])\<rparr>)"
    using assms(1) k u by (simp add: transformApp_def Let_def)
  show ?thesis
    using k t by (simp add: index_get_set_upper)
qed

theorem transformApp_empty_list_witness:
  "transformApp (JObj [(''name'', JStr ''orders''), (''instance'', JArr [])]) empty_cache =
     (Inr (), \<lparr>app = \<lparr>own = [''ORDERS'' \<mapsto> JArr [JArr []]], proto = None\<rparr>,
               vip = \<lparr>own = [''undefined'' \<mapsto> JArr [JArr []]], proto = None\<rparr>\<rparr>)"
proof -
  let ?a = "JObj [(''name'', JStr ''orders''), (''instance'', JArr [])]"
  have h1: "js_member ?a ''instance'' = Inr (JArr [])"
    by (simp add: own_property_def)
  have h2: "js_member ?a ''name'' = Inr (JStr ''orders'')"
    by (simp add: own_property_def)
  have u: "toUpperCase ''orders'' = ''ORDERS''"
    by (simp add: toUpperCase_def upper_char_def lower_letters_def upper_letters_def)
  from transformApp_empty_list[OF h1 h2, of empty_cache] show ?thesis
    by (simp add: u index_set_def empty_cache_def empty_index_def)
qed

text \<open>
  C9. When \<^verbatim>\<open>transformApp\<close> completes, the sequence \<open>seq\<close> that it stored under the
  application name is also what it wrote to the virtual-IP index, under one key: the
  \<^verbatim>\<open>vipAddress\<close> of \<open>seq[0]\<close>, the first instance of the sequence. The virtual-IP
  index gains no other own key, so the addresses of later instances get none.
\<close>

theorem transformApp_vip_key:
  assumes "transformApp a c = (Inr (), c')"
  shows "\<exists>n seq x k. upper_name a = Inr n \<and> app c' = index_set (app c) n seq
          \<and> js_first seq = Inr x \<and> vipAddress_key x = Inr k
          \<and> vip c' = index_set (vip c) k seq
          \<and> dom (own (vip c')) \<subseteq> insert k (dom (own (vip c)))"
  using assms
  by (auto simp: transformApp_def Let_def own_index_set split: sum.splits if_splits)

theorem transformApp_vip_key_witness:
  "transformApp
     (JObj [(''name'', JStr ''orders''),
            (''instance'', JArr [JObj [(''vipAddress'', JStr ''a.vip'')],
                                 JObj [(''vipAddress'', JStr ''b.vip'')]])])
     empty_cache
   = (Inr (),
      \<lparr>app = \<lparr>own = [''ORDERS'' \<mapsto> JArr [JObj [(''vipAddress'', JStr ''a.vip'')],
                                            JObj [(''vipAddress'', JStr ''b.vip'')]]], proto = None\<rparr>,
       vip = \<lparr>own = [''a.vip'' \<mapsto> JArr [JObj [(''vipAddress'', JStr ''a.vip'')],
                                           JObj [(''vipAddress'', JStr ''b.vip'')]]], proto = None\<rparr>\<rparr>)
   \<and> (\<exists>n seq x k.
         upper_name (JObj [(''name'', JStr ''orders''),
            (''instance'', JArr [JObj [(''vipAddress'', JStr ''a.vip'')],
                                 JObj [(''vipAddress'', JStr ''b.vip'')]])]) = Inr n
       \<and> js_first seq = Inr x \<and> vipAddress_key x = Inr k
       \<and> dom [''a.vip'' \<mapsto> JArr [JObj [(''vipAddress'', JStr ''a.vip'')],
                                     JObj [(''vipAddress'', JStr ''b.vip'')]]]
           \<subseteq> insert k (dom (own (vip empty_cache))))"
proof -
  let ?i = "JArr [JObj [(''vipAddress'', JStr ''a.vip'')], JObj [(''vipAddress'', JStr ''b.vip'')]]"
  let ?a = "JObj [(''name'', JStr ''orders''), (''instance'', ?i)]"
  let ?c = "\<lparr>app = \<lparr>own = [''ORDERS'' \<mapsto> ?i], proto = None\<rparr>,
             vip = \<lparr>own = [''a.vip'' \<mapsto> ?i], proto = None\<rparr>\<rparr>"
  have u: "toUpperCase ''orders'' = ''ORDERS''"
    by (simp add: toUpperCase_def upper_char_def lower_letters_def upper_letters_def)
  have h: "transformApp ?a empty_cache = (Inr (), ?c)"
    by (simp add: transformApp_def own_property_def upper_name_def vipAddress_key_def u
        index_set_def empty_cache_def empty_index_def)
  from transformApp_vip_key[OF h] obtain n seq x k where
    "upper_name ?a = Inr n" "js_first seq = Inr x" "vipAddress_key x = Inr k"
    "dom (own (vip ?c)) \<subseteq> insert k (dom (own (vip empty_cache)))"
    by blast
  then have "\<exists>n seq x k. upper_name ?a = Inr n \<and> js_first seq = Inr x \<and> vipAddress_key x = Inr k
       \<and> dom [''a.vip'' \<mapsto> ?i] \<subseteq> insert k (dom (own (vip empty_cache)))"
    by auto
  with h show ?thesis by blast
qed

section \<open>Properties of the lookups\<close>

lemma distinct_lower_letters: "distinct lower_letters"
  by (simp add: lower_letters_def)

lemma upper_not_lower: "d \<in> set upper_letters \<Longrightarrow> d \<notin> set lower_letters"
  by (auto simp: upper_letters_def lower_letters_def)

lemma upper_char_pair:
  assumes "(c, d) \<in> set (zip lower_letters upper_letters)"
  shows "upper_char c = d" and "upper_char d = d"
proof -
  have "map_of (zip lower_letters upper_letters) c = Some d"
    using assms distinct_lower_letters length_letters by (simp add: map_of_eq_Some_iff)
  then show "upper_char c = d" by (simp add: upper_char_def)
  have "d \<in> set upper_letters" using assms by (rule set_zip_rightD)
  then have "d \<notin> set lower_letters" by (rule upper_not_lower)
  then have "map_of (zip lower_letters upper_letters) d = None"
    using map_of_zip_is_None[OF length_letters] by blast
  then show "upper_char d = d" by (simp add: upper_char_def)
qed

lemma same_letter_upper: "same_letter c d \<Longrightarrow> upper_char c = upper_char d"
  unfolding same_letter_def using upper_char_pair by metis

lemma casing_of_upper: "casing_of a b \<Longrightarrow> toUpperCase a = toUpperCase b"
  unfolding casing_of_def toUpperCase_def
  by (induction a b rule: list_all2_induct) (auto dest: same_letter_upper)


text \<open>
  After an entry named \<open>n\<close> has been transformed, the sequence stored for it is found
  under every non-empty casing of \<open>n\<close>: the key was upper-cased when it was written and
  the argument is upper-cased when it is looked up.
\<close>

lemma getInstancesByAppId_after_transformApp:
  assumes "transformApp e c = (Inr (), c')"
    and "js_member e ''name'' = Inr (JStr n)"
    and "casing_of a n" and "a \<noteq> []"
  shows "\<exists>seq. app c' = index_set (app c) (toUpperCase n) seq
          \<and> fst (getInstancesByAppId (JStr a) (s\<lparr>cache := c'\<rparr>)) = Inr (Value seq)"
proof -
  have u: "upper_name e = Inr (toUpperCase n)"
    using assms(2) by (simp add: upper_name_def)
  from assms(1) u obtain seq where
    seq: "app c' = index_set (app c) (toUpperCase n) seq"
    by (auto simp: transformApp_def Let_def split: sum.splits if_splits)
  have "toUpperCase a = toUpperCase n" using assms(3) by (rule casing_of_upper)
  then have "index_get (app c') (toUpperCase a) = Value seq"
    using seq by (simp add: index_get_set_upper)
  then show ?thesis
    using seq assms(4) by (auto simp: getInstancesByAppId_def Let_def looked_truthy_def)
qed



text \<open>
  A missing or empty identifier is refused with a \<^verbatim>\<open>RangeError\<close> before the cache is
  read. An identifier under which nothing is stored reads as \<^verbatim>\<open>undefined\<close> and is
  logged as a warning, provided the index object inherits no member of that name; an
  upper-cased application name never is such a name.
\<close>

lemma lookup_no_identifier:
  assumes "\<not> truthy x"
  shows "getInstancesByAppId x s = (Inl (RangeError ''Unable to query instances with no appId''), s)"
    and "getInstancesByVipAddress x s =
           (Inl (RangeError ''Unable to query instances with no vipAddress''), s)"
  using assms by (simp_all add: getInstancesByAppId_def getInstancesByVipAddress_def)

lemma getInstancesByAppId_unmatched:
  assumes "a \<noteq> []" and "own (app (cache s)) (toUpperCase a) = None"
    and "proto (app (cache s)) = None"
  shows "getInstancesByAppId (JStr a) s =
           (Inr (Value JUndefined),
            emit (Log Warn [Msg (''Unable to retrieve instances for appId: '' @ a)]) s)"
  using assms toUpperCase_not_inherited[of a]
  by (simp add: getInstancesByAppId_def index_get_def inherited_def looked_truthy_def)

lemma getInstancesByVipAddress_unmatched:
  assumes "k \<noteq> []" and "own (vip (cache s)) k = None"
    and "proto (vip (cache s)) = None" and "k \<notin> set Object_prototype_names"
  shows "getInstancesByVipAddress (JStr k) s =
           (Inr (Value JUndefined),
            emit (Log Warn [Msg (''Unable to retrieves instances for vipAddress: '' @ k)]) s)"
  using assms
  by (simp add: getInstancesByVipAddress_def index_get_def inherited_def looked_truthy_def)

text \<open>
  C7. The two outcomes "parameter error" and "nothing cached" are what the lookups are
  written to produce, but \<^verbatim>\<open>getInstancesByVipAddress\<close> reads a plain object: in a
  client that has cached nothing, the identifier \<^verbatim>\<open>constructor\<close> matches no entry and
  still returns a value, the inherited \<^verbatim>\<open>Object.prototype.constructor\<close>, with no
  warning logged.
\<close>

theorem getInstancesByVipAddress_inherited:
  "own (vip (cache (new_client cfg))) ''constructor'' = None
   \<and> getInstancesByVipAddress (JStr ''constructor'') (new_client cfg)
       = (Inr (Builtin ''constructor''), new_client cfg)"
  by (simp add: getInstancesByVipAddress_def new_client_def empty_cache_def empty_index_def
      index_get_def inherited_def looked_truthy_def Object_prototype_names_def)

section \<open>Single records and one-element lists\<close>

text \<open>
  A record without a truthy \<^verbatim>\<open>length\<close> property and the one-element list holding it
  are normalised alike: the two calls throw or complete together, and when they complete
  they leave equal caches.
\<close>

lemma transformApp_single_record:
  assumes "js_member a1 ''instance'' = Inr (JObj props)"
    and "js_member a2 ''instance'' = Inr (JArr [JObj props])"
    and "js_member a1 ''name'' = js_member a2 ''name''"
    and "\<not> truthy (own_property props ''length'')"
  shows "fst (transformApp a1 c) = fst (transformApp a2 c)
       \<and> (fst (transformApp a1 c) = Inr () \<longrightarrow> snd (transformApp a1 c) = snd (transformApp a2 c))"
proof -
  have n: "upper_name a1 = upper_name a2"
    using assms(3) by (simp add: upper_name_def)
  show ?thesis
    using assms(1,2,4) n
    by (auto simp: transformApp_def Let_def dest: upper_name_error vipAddress_key_error
        split: sum.splits)
qed

text \<open>
  C8. The list branch is chosen by \<^verbatim>\<open>app.instance.length\<close>, not by
  \<^verbatim>\<open>Array.isArray\<close>. A single record that carries a truthy \<^verbatim>\<open>length\<close> property is
  taken for a list: it is stored bare under the application name and reading
  \<^verbatim>\<open>app.instance[0].vipAddress\<close> throws, while the one-element list holding the same
  record is cached under both keys.
\<close>

theorem transformApp_record_with_length:
  "transformApp
     (JObj [(''name'', JStr ''A''),
            (''instance'', JObj [(''vipAddress'', JStr ''v''), (''length'', JNum 1)])])
     empty_cache
   = (Inl TypeError,
      \<lparr>app = \<lparr>own = [''A'' \<mapsto> JObj [(''vipAddress'', JStr ''v''), (''length'', JNum 1)]],
               proto = None\<rparr>,
       vip = empty_index\<rparr>)
   \<and> transformApp
     (JObj [(''name'', JStr ''A''),
            (''instance'', JArr [JObj [(''vipAddress'', JStr ''v''), (''length'', JNum 1)]])])
     empty_cache
   = (Inr (),
      \<lparr>app = \<lparr>own = [''A'' \<mapsto> JArr [JObj [(''vipAddress'', JStr ''v''), (''length'', JNum 1)]]],
               proto = None\<rparr>,
       vip = \<lparr>own = [''v'' \<mapsto> JArr [JObj [(''vipAddress'', JStr ''v''), (''length'', JNum 1)]]],
               proto = None\<rparr>\<rparr>)"
proof -
  have u: "toUpperCase ''A'' = ''A''"
    by (simp add: toUpperCase_def upper_char_def lower_letters_def upper_letters_def)
  show ?thesis
    by (simp add: transformApp_def own_property_def upper_name_def vipAddress_key_def u
        index_set_def empty_cache_def empty_index_def Let_def)
qed

section \<open>Replacing the cache\<close>

lemma building_steps_cache:
  "(t, ph) \<in> set (building_steps s as nc) \<Longrightarrow>
     cache t = cache s \<or> (ph = Finished \<and> transformApps as nc = (Inr (), cache t))"
proof (induction as arbitrary: nc)
  case Nil
  then show ?case by auto
next
  case (Cons a as)
  obtain r c' where ta: "transformApp a nc = (r, c')" by (cases "transformApp a nc")
  show ?case
  proof (cases r)
    case (Inl e)
    with ta Cons.prems show ?thesis by auto
  next
    case (Inr u)
    with ta Cons.prems have "t = s \<or> (t, ph) \<in> set (building_steps s as c')" by auto
    then show ?thesis
    proof
      assume "t = s"
      then show ?thesis by simp
    next
      assume "(t, ph) \<in> set (building_steps s as c')"
      from Cons.IH[OF this] ta Inr show ?thesis by auto
    qed
  qed
qed

lemma building_steps_last:
  "fst (last (building_steps s as nc)) =
     (case transformApps as nc of (Inl e, c') \<Rightarrow> s | (Inr u, c') \<Rightarrow> s\<lparr>cache := c'\<rparr>)"
proof (induction as arbitrary: nc)
  case Nil
  then show ?case by simp
next
  case (Cons a as)
  have ne: "\<And>c. building_steps s as c \<noteq> []" by (cases as) auto
  obtain r c' where ta: "transformApp a nc = (r, c')" by (cases "transformApp a nc")
  show ?case
  proof (cases r)
    case (Inl e)
    with ta show ?thesis by simp
  next
    case (Inr u)
    with ta Cons.IH[of c'] ne[of c'] show ?thesis by simp
  qed
qed

lemma transformApps_single: "transformApps [a] c = transformApp a c"
  by (auto split: prod.splits sum.splits)

lemma transformRegistry_steps_last:
  "fst (last (transformRegistry_steps registry s)) = snd (transformRegistry registry s)"
  by (auto simp: transformRegistry_steps_def transformRegistry_def build_newCache_def
      building_steps_last transformApps_single simp del: building_steps.simps transformApps.simps
      split: sum.splits jsval.splits prod.splits)

text \<open>
  C1. In every configuration that an execution of \<^verbatim>\<open>transformRegistry\<close> passes
  through, \<^verbatim>\<open>this.cache\<close> is either the pair of indices that was there before the call,
  or the call has finished and the pair is the one built from this registry, the same
  pair whatever the client state was. The two indices are fields of one record that a
  single assignment replaces, so no configuration pairs an index of the new fetch with one
  of an older fetch. The last configuration is the state the call returns.
\<close>

theorem transformRegistry_atomic:
  assumes "(t, ph) \<in> set (transformRegistry_steps registry s)"
  shows "(cache t = cache s
          \<or> (ph = Finished \<and> (\<forall>s0. transformRegistry registry s0 = (Inr (), s0\<lparr>cache := cache t\<rparr>))))
       \<and> fst (last (transformRegistry_steps registry s)) = snd (transformRegistry registry s)"
proof -
  have "cache t = cache s
          \<or> (ph = Finished \<and> (\<forall>s0. transformRegistry registry s0 = (Inr (), s0\<lparr>cache := cache t\<rparr>)))"
  proof (cases "cache t = cache s")
    case True
    then show ?thesis by simp
  next
    case False
    with assms obtain applications application where
      r: "truthy registry" "js_member registry ''applications'' = Inr applications"
         "js_member applications ''application'' = Inr application" "truthy application"
      and b: "(t, ph) \<in> set (case application of JArr as \<Rightarrow> building_steps s as empty_cache
                 | _ \<Rightarrow> building_steps s [application] empty_cache)"
      by (auto simp: transformRegistry_steps_def emit_def split: sum.splits if_splits)
    have "ph = Finished \<and> build_newCache application = (Inr (), cache t)"
    proof (cases application)
      case (JArr as)
      with b False building_steps_cache[of t ph s as empty_cache] show ?thesis
        by (simp add: build_newCache_def)
    qed (use b False building_steps_cache[of t ph s "[application]" empty_cache] in
        \<open>simp_all add: build_newCache_def transformApps_single del: building_steps.simps transformApps.simps\<close>)
    with r show ?thesis by (simp add: transformRegistry_def)
  qed
  then show ?thesis by (simp add: transformRegistry_steps_last)
qed

lemma upper_ab: "toUpperCase ''a'' = ''A''" "toUpperCase ''b'' = ''B''"
  by (simp_all add: toUpperCase_def upper_char_def lower_letters_def upper_letters_def)

lemma two_apps_steps:
  "transformRegistry_steps two_apps_registry s =
     [(s, Building
            [JObj [(''name'', JStr ''a''), (''instance'', JObj [(''vipAddress'', JStr ''a.vip'')])],
             JObj [(''name'', JStr ''b''), (''instance'', JArr [JObj [(''vipAddress'', JStr ''b.vip'')]])]]
            empty_cache),
      (s, Building
            [JObj [(''name'', JStr ''b''), (''instance'', JArr [JObj [(''vipAddress'', JStr ''b.vip'')]])]]
            \<lparr>app = \<lparr>own = [''A'' \<mapsto> JArr [JObj [(''vipAddress'', JStr ''a.vip'')]]], proto = None\<rparr>,
             vip = \<lparr>own = [''a.vip'' \<mapsto> JArr [JObj [(''vipAddress'', JStr ''a.vip'')]]], proto = None\<rparr>\<rparr>),
      (s, Building [] two_apps_cache),
      (s\<lparr>cache := two_apps_cache\<rparr>, Finished)]"
  by (simp add: transformRegistry_steps_def two_apps_registry_def two_apps_cache_def
      transformApp_def own_property_def upper_name_def vipAddress_key_def upper_ab
      index_set_def empty_cache_def empty_index_def Let_def)

theorem transformRegistry_atomic_witness:
  "map (\<lambda>(t, ph). cache t)
       (transformRegistry_steps two_apps_registry (new_client example_config\<lparr>cache := old_cache\<rparr>))
     = [old_cache, old_cache, old_cache, two_apps_cache]
   \<and> old_cache \<noteq> two_apps_cache
   \<and> (\<forall>s0. transformRegistry two_apps_registry s0 = (Inr (), s0\<lparr>cache := two_apps_cache\<rparr>))"
proof -
  let ?s = "new_client example_config\<lparr>cache := old_cache\<rparr>"
  have m: "(?s\<lparr>cache := two_apps_cache\<rparr>, Finished) \<in> set (transformRegistry_steps two_apps_registry ?s)"
    by (simp add: two_apps_steps)
  have ne: "old_cache \<noteq> two_apps_cache"
  proof
    assume "old_cache = two_apps_cache"
    then have "own (app old_cache) ''OLD'' = own (app two_apps_cache) ''OLD''" by simp
    then show False by (simp add: old_cache_def two_apps_cache_def)
  qed
  from transformRegistry_atomic[OF m] ne
  have "\<forall>s0. transformRegistry two_apps_registry s0 = (Inr (), s0\<lparr>cache := two_apps_cache\<rparr>)"
    by simp
  with ne show ?thesis by (simp add: two_apps_steps)
qed

section \<open>Resolution by DNS\<close>

text \<open>
  C5. With an Amazon datacenter and DNS mode enabled, a failure of the first TXT query,
  or of the second one after the first has answered, makes the resolution throw:
  \<^verbatim>\<open>lookupCurrentEurekaHost\<close> hands no host to its callback, in particular not the
  configured one, and \<^verbatim>\<open>buildEurekaUrl\<close> builds no URL.
\<close>

theorem dns_failure_is_fatal:
  assumes "amazonDataCenter (config s)" and "eureka_useDns (cfg_eureka (config s))"
    and "resolveTxt ev (''txt.'' @ render (eureka_ec2Region (cfg_eureka (config s))) @ ''.''
                          @ eureka_host (cfg_eureka (config s))) = Inl err
       \<or> (\<exists>first_record others.
            resolveTxt ev (''txt.'' @ render (eureka_ec2Region (cfg_eureka (config s))) @ ''.''
                          @ eureka_host (cfg_eureka (config s))) = Inr (first_record # others)
          \<and> resolveTxt ev (''txt.'' @ render (nth_opt first_record (pick ev (length first_record))))
              = Inl err)"
  shows "\<exists>e. fst (lookupCurrentEurekaHost ev s) = Inl e \<and> fst (buildEurekaUrl ev s) = Inl e"
  using assms
  by (auto simp: buildEurekaUrl_def lookupCurrentEurekaHost_def locateEurekaHostUsingDns_def Let_def
      split: sum.splits list.splits prod.splits)

lemma amazon_dns_config: "amazonDataCenter dns_config"
  by (simp add: amazonDataCenter_def dns_config_def toLowerCase_def lower_char_def
      lower_letters_def upper_letters_def)

theorem dns_failure_is_fatal_witness:
  "amazonDataCenter dns_config \<and> eureka_useDns (cfg_eureka dns_config)
   \<and> fst (lookupCurrentEurekaHost
        (stub_env (Response 200 ''null'') (Response 204 JUndefined)
           (\<lambda>name. if name = ''txt.us-east-1.eureka.local'' then Inr [[''eu1.example.net'']]
                    else Inl ''queryTxt ENOTFOUND''))
        (new_client dns_config))
      = Inl (Error ''Error locating eureka server using DNS: [queryTxt ENOTFOUND]'')
   \<and> fst (buildEurekaUrl
        (stub_env (Response 200 ''null'') (Response 204 JUndefined)
           (\<lambda>name. if name = ''txt.us-east-1.eureka.local'' then Inr [[''eu1.example.net'']]
                    else Inl ''queryTxt ENOTFOUND''))
        (new_client dns_config))
      = Inl (Error ''Error locating eureka server using DNS: [queryTxt ENOTFOUND]'')"
proof -
  let ?ev = "stub_env (Response 200 ''null'') (Response 204 JUndefined)
           (\<lambda>name. if name = ''txt.us-east-1.eureka.local'' then Inr [[''eu1.example.net'']]
                    else Inl ''queryTxt ENOTFOUND'')"
  let ?s = "new_client dns_config"
  have a: "amazonDataCenter (config ?s)" by (simp add: new_client_def amazon_dns_config)
  have u: "eureka_useDns (cfg_eureka (config ?s))" by (simp add: new_client_def dns_config_def)
  have q: "resolveTxt ?ev (''txt.'' @ render (eureka_ec2Region (cfg_eureka (config ?s))) @ ''.''
                          @ eureka_host (cfg_eureka (config ?s))) = Inl ''queryTxt ENOTFOUND''
       \<or> (\<exists>first_record others.
            resolveTxt ?ev (''txt.'' @ render (eureka_ec2Region (cfg_eureka (config ?s))) @ ''.''
                          @ eureka_host (cfg_eureka (config ?s))) = Inr (first_record # others)
          \<and> resolveTxt ?ev (''txt.'' @ render (nth_opt first_record (pick ?ev (length first_record))))
              = Inl ''queryTxt ENOTFOUND'')"
    by (simp add: new_client_def dns_config_def stub_env_def render_def nth_opt_def)
  have l: "fst (lookupCurrentEurekaHost ?ev ?s)
      = Inl (Error ''Error locating eureka server using DNS: [queryTxt ENOTFOUND]'')"
    using a by (simp add: lookupCurrentEurekaHost_def locateEurekaHostUsingDns_def new_client_def
        dns_config_def stub_env_def render_def nth_opt_def is_set_def Let_def)
  from dns_failure_is_fatal[OF a u q] l a u show ?thesis
    by (auto simp: new_client_def)
qed

section \<open>Registration\<close>







section \<open>Heartbeat\<close>

text \<open>Each call of \<^verbatim>\<open>register\<close> sets the diagnostic timer exactly once.\<close>

lemma registrations_emit:
  "registrations (emit x s) = registrations s + (if x = SetTimeout 10000 then 1 else 0)"
  by (simp add: registrations_def emit_def)

lemma registrations_locate:
  "registrations (snd (locateEurekaHostUsingDns ev s)) = registrations s"
  by (simp add: locateEurekaHostUsingDns_def Let_def registrations_emit
      split: sum.splits list.splits)

lemma registrations_buildEurekaUrl:
  "registrations (snd (buildEurekaUrl ev s)) = registrations s"
  using registrations_locate[of ev s]
  by (auto simp: buildEurekaUrl_def lookupCurrentEurekaHost_def split: prod.splits sum.splits)

lemma registrations_register_response:
  "registrations (snd (register_response r s)) = registrations s"
  by (simp add: register_response_def Let_def registrations_emit
      split: http_result.splits sum.splits)

lemma registrations_begin:
  "registrations (begin_registration s) = Suc (registrations s)"
  by (simp add: begin_registration_def registrations_def emit_def)

lemma registrations_register:
  "registrations (snd (register ev s)) = Suc (registrations s)"
proof (cases "buildEurekaUrl ev (begin_registration s)")
  case (Pair r s2)
  have s2: "registrations s2 = Suc (registrations s)"
    using registrations_buildEurekaUrl[of ev "begin_registration s"] Pair
    by (simp add: registrations_begin)
  show ?thesis
  proof (cases r)
    case (Inl e)
    with Pair s2 show ?thesis by (simp add: register_def)
  next
    case (Inr url)
    with Pair s2 show ?thesis
      by (simp add: register_def Let_def registrations_register_response registrations_emit)
  qed
qed

text \<open>
  C3. For every response to a renew call: a 404 makes the response handler call
  \<^verbatim>\<open>register\<close> exactly once, inside the handler's own run and not from a timer; any
  other status than 200 and 404, and a transport error, leave the client as it was but
  for log entries: no exception escapes, and no registration or other request is made.
\<close>

theorem renew_response_outcomes:
  "registrations (snd (renew_response ev (Response 404 body) s)) = Suc (registrations s)
   \<and> (\<forall>statusCode. statusCode \<noteq> 200 \<and> statusCode \<noteq> 404 \<longrightarrow>
         (\<exists>logs. renew_response ev (Response statusCode body) s
                    = (Inr (), s\<lparr>effects := effects s @ logs\<rparr>)
               \<and> logs \<noteq> [] \<and> list_all is_log logs))
   \<and> (\<exists>logs. renew_response ev (NoResponse e) s = (Inr (), s\<lparr>effects := effects s @ logs\<rparr>)
               \<and> logs \<noteq> [] \<and> list_all is_log logs)"
proof (intro conjI allI impI)
  let ?w = "emit (Log Warn [Msg ''eureka heartbeat FAILED, Re-registering app'']) s"
  have "snd (renew_response ev (Response 404 body) s) = snd (register ev ?w)"
    by (simp add: renew_response_def split: prod.splits sum.splits)
  then show "registrations (snd (renew_response ev (Response 404 body) s)) = Suc (registrations s)"
    by (simp add: registrations_register registrations_emit)
next
  fix statusCode :: int
  assume "statusCode \<noteq> 200 \<and> statusCode \<noteq> 404"
  then show "\<exists>logs. renew_response ev (Response statusCode body) s
                    = (Inr (), s\<lparr>effects := effects s @ logs\<rparr>)
               \<and> logs \<noteq> [] \<and> list_all is_log logs"
    by (intro exI[of _ "[Log Warn [Msg ''eureka heartbeat FAILED, will retry.'',
               Msg (''status: '' @ string_of_int statusCode @ '' body: '' @ body)]]"])
       (simp add: renew_response_def emit_def is_log_def)
next
  show "\<exists>logs. renew_response ev (NoResponse e) s = (Inr (), s\<lparr>effects := effects s @ logs\<rparr>)
               \<and> logs \<noteq> [] \<and> list_all is_log logs"
  proof (intro exI conjI)
    show "renew_response ev (NoResponse e) s =
            (Inr (), s\<lparr>effects := effects s @
               [Log Err [Msg ''An error in the request occured.'', Thrown e],
                Log Warn [Msg ''eureka heartbeat FAILED, will retry.'',
                          Msg ''status: unknown body: undefined'']]\<rparr>)"
      by (simp add: renew_response_def emit_def)
  qed (simp_all add: is_log_def)
qed

lemma static_url:
  assumes "cfg_eureka (config s) = cfg_eureka example_config"
    and "dataCenter_name (cfg_instance (config s)) = Some ''MyOwn''"
  shows "buildEurekaUrl ev s = (Inr ''http://eureka.local:8761/eureka/v2/apps/'', s)"
proof -
  have p: "string_of_nat 8761 = ''8761''"
    by (simp add: string_of_nat.simps digit_char_def)
  have a: "\<not> amazonDataCenter (config s)"
    using assms(2)
    by (simp add: amazonDataCenter_def toLowerCase_def lower_char_def lower_letters_def
        upper_letters_def)
  show ?thesis
    using a assms(1)
    by (simp add: buildEurekaUrl_def lookupCurrentEurekaHost_def example_config_def render_def p)
qed

theorem renew_response_outcomes_witness:
  "effects (snd (renew_response
       (stub_env (Response 404 []) (Response 204 JUndefined) no_dns)
       (Response 404 []) (new_client example_config)))
     = [Log Warn [Msg ''eureka heartbeat FAILED, Re-registering app''],
        SetTimeout 10000,
        Http (Post ''http://eureka.local:8761/eureka/v2/apps/orders''
                ((cfg_instance example_config)\<lparr>inst_status := Some ''UP''\<rparr>)),
        ClearTimeout,
        Log Info [Msg ''registered with eureka: '', Msg ''orders/host-1'']]
   \<and> registrations (snd (renew_response
       (stub_env (Response 404 []) (Response 204 JUndefined) no_dns)
       (Response 404 []) (new_client example_config))) = 1
   \<and> renew_response (stub_env (Response 404 []) (Response 204 JUndefined) no_dns)
       (Response 500 ''oops'') (new_client example_config)
     = (Inr (), new_client example_config
          \<lparr>effects := [Log Warn [Msg ''eureka heartbeat FAILED, will retry.'',
                                  Msg ''status: 500 body: oops'']]\<rparr>)"
proof -
  let ?ev = "stub_env (Response 404 []) (Response 204 JUndefined) no_dns"
  let ?s = "new_client example_config"
  let ?w = "emit (Log Warn [Msg ''eureka heartbeat FAILED, Re-registering app'']) ?s"
  have r0: "registrations ?s = 0"
    by (simp add: registrations_def new_client_def)
  have n: "registrations (snd (renew_response ?ev (Response 404 []) ?s)) = 1"
    using r0 renew_response_outcomes[of ?ev "[]" ?s]
    by simp
  have u: "buildEurekaUrl ?ev (begin_registration ?w)
             = (Inr ''http://eureka.local:8761/eureka/v2/apps/'', begin_registration ?w)"
    by (rule static_url)
       (simp_all add: begin_registration_def emit_def new_client_def example_config_def)
  have e: "effects (snd (renew_response ?ev (Response 404 []) ?s))
     = [Log Warn [Msg ''eureka heartbeat FAILED, Re-registering app''],
        SetTimeout 10000,
        Http (Post ''http://eureka.local:8761/eureka/v2/apps/orders''
                ((cfg_instance example_config)\<lparr>inst_status := Some ''UP''\<rparr>)),
        ClearTimeout,
        Log Info [Msg ''registered with eureka: '', Msg ''orders/host-1'']]"
    by (simp add: renew_response_def register_def u Let_def)
       (simp add: register_response_def stub_env_def begin_registration_def emit_def
          new_client_def example_config_def instanceId_def is_set_def amazonDataCenter_def
          toLowerCase_def lower_char_def lower_letters_def upper_letters_def render_def Let_def)
  have p: "string_of_int 500 = ''500''"
    by (simp add: string_of_int_def string_of_nat.simps digit_char_def)
  have o: "renew_response ?ev (Response 500 ''oops'') ?s
     = (Inr (), ?s\<lparr>effects := [Log Warn [Msg ''eureka heartbeat FAILED, will retry.'',
                                  Msg ''status: 500 body: oops'']]\<rparr>)"
    by (simp add: renew_response_def emit_def p new_client_def)
  from n e o show ?thesis by simp
qed

section \<open>Failed fetches\<close>

lemma cache_emit: "cache (emit x s) = cache s"
  by (simp add: emit_def)

lemma cache_locate: "cache (snd (locateEurekaHostUsingDns ev s)) = cache s"
  by (simp add: locateEurekaHostUsingDns_def Let_def cache_emit split: sum.splits list.splits)

lemma cache_buildEurekaUrl: "cache (snd (buildEurekaUrl ev s)) = cache s"
  using cache_locate[of ev s]
  by (auto simp: buildEurekaUrl_def lookupCurrentEurekaHost_def split: prod.splits sum.splits)







text \<open>
  A body that is not JSON makes \<^verbatim>\<open>JSON.parse\<close> throw inside the response handler:
  the cache stays, and the callback is not called at all.
\<close>

lemma fetchRegistry_malformed_payload:
  "fetchRegistry (stub_env (Response 200 ''<html>'') (Response 204 JUndefined) no_dns)
        (new_client example_config\<lparr>cache := old_cache\<rparr>)
     = (Inl SyntaxError,
        new_client example_config
          \<lparr>cache := old_cache,
           effects := [Http (Get ''http://eureka.local:8761/eureka/v2/apps/''),
                       Log Debug [Msg ''retrieved registry successfully'']]\<rparr>)"
proof -
  let ?ev = "stub_env (Response 200 ''<html>'') (Response 204 JUndefined) no_dns"
  let ?s = "new_client example_config\<lparr>cache := old_cache\<rparr>"
  have u: "buildEurekaUrl ?ev ?s = (Inr ''http://eureka.local:8761/eureka/v2/apps/'', ?s)"
    by (rule static_url) (simp_all add: new_client_def example_config_def)
  show ?thesis
    unfolding fetchRegistry_def u
    by (simp add: fetchRegistry_response_def
        stub_env_def JSON_parse_literal_def emit_def new_client_def Let_def)
qed

section \<open>Further invariants\<close>

text \<open>
  The application index keeps the prototype it has: its keys are upper-cased, and no
  upper-cased string is \<^verbatim>\<open>__proto__\<close>. So in every cache that a fetch installs,
  application lookups are answered by own properties only.
\<close>

lemma transformApp_app_proto: "proto (app (snd (transformApp a c))) = proto (app c)"
proof -
  have u: "\<And>n v. upper_name a = Inr n \<Longrightarrow> proto (index_set (app c) n v) = proto (app c)"
    by (auto simp: upper_name_def index_set_upper split: sum.splits elim!: js_toUpperCase.elims)
  show ?thesis
    by (auto simp: transformApp_def Let_def u split: sum.splits)
qed

lemma transformApps_app_proto: "proto (app (snd (transformApps as c))) = proto (app c)"
proof (induction as arbitrary: c)
  case Nil
  then show ?case by simp
next
  case (Cons a as)
  obtain r c' where ta: "transformApp a c = (r, c')" by (cases "transformApp a c")
  then have p: "proto (app c') = proto (app c)"
    using transformApp_app_proto[of a c] by simp
  show ?case
  proof (cases r)
    case (Inl e)
    with ta p show ?thesis by simp
  next
    case (Inr u)
    with ta p Cons.IH[of c'] show ?thesis by simp
  qed
qed

lemma transformRegistry_app_proto:
  assumes "proto (app (cache s)) = None"
  shows "proto (app (cache (snd (transformRegistry registry s)))) = None"
proof -
  have b: "\<And>application. proto (app (snd (build_newCache application))) = None"
    using transformApps_app_proto[of _ empty_cache] transformApp_app_proto[of _ empty_cache]
    by (auto simp: build_newCache_def empty_cache_def empty_index_def split: jsval.splits)
  show ?thesis
    using assms
    by (auto simp: transformRegistry_def emit_def split: sum.splits prod.splits)
       (metis b snd_conv)
qed

text \<open>
  After \<^verbatim>\<open>fetchRegistry\<close> the cache is the one from before, or the pair of indices
  that the fetched registry yields in any client state.
\<close>

lemma transformRegistry_installs:
  assumes "transformRegistry registry s = (out, s')" and "cache s' \<noteq> cache s"
  shows "\<forall>s0. transformRegistry registry s0 = (Inr (), s0\<lparr>cache := cache s'\<rparr>)"
  using assms
  by (auto simp: transformRegistry_def emit_def split: sum.splits prod.splits if_splits)

lemma fetchRegistry_cache:
  "cache (snd (fetchRegistry ev s)) = cache s
   \<or> (\<exists>registry. \<forall>s0. transformRegistry registry s0
                          = (Inr (), s0\<lparr>cache := cache (snd (fetchRegistry ev s))\<rparr>))"
proof (cases "fetchRegistry ev s")
  case (Pair out s')
  show ?thesis
  proof (cases "cache s' = cache s")
    case True
    with Pair show ?thesis by simp
  next
    case False
    obtain r s1 where b: "buildEurekaUrl ev s = (r, s1)" by (cases "buildEurekaUrl ev s")
    have c1: "cache s1 = cache s" using cache_buildEurekaUrl[of ev s] b by simp
    from Pair b False c1 obtain registry s2 o2 where
      t: "transformRegistry registry s2 = (o2, s')" and c2: "cache s2 = cache s"
      by (auto simp: fetchRegistry_def fetchRegistry_response_def Let_def cache_emit
          split: sum.splits http_result.splits if_splits prod.splits)
    from transformRegistry_installs[OF t] False c2 Pair show ?thesis by auto
  qed
qed

end
